theory Spec2Isabelle
  imports Main "HOL-Library.AList"
begin

section \<open>Values and failures\<close>

text \<open>
  The client (sdks/python/client.py) decodes one JSON object per turn and answers with a
  list of command dictionaries. Values that the client stores or emits without looking
  inside them stay JSON values; Python's unbounded integers are \<open>int\<close>.
\<close>

datatype json =
    JNull
  | JBool bool
  | JInt int
  | JStr string
  | JList "json list"
  | JObj "(string \<times> json) list"

text \<open>Python truth value of a decoded JSON value (\<open>if v:\<close>, \<open>v and ...\<close>).\<close>

fun truthy :: "json \<Rightarrow> bool" where
  "truthy JNull = False"
| "truthy (JBool b) = b"
| "truthy (JInt i) = (i \<noteq> 0)"
| "truthy (JStr s) = (s \<noteq> [])"
| "truthy (JList xs) = (xs \<noteq> [])"
| "truthy (JObj kvs) = (kvs \<noteq> [])"

text \<open>Python class name of a decoded JSON value, as it appears in an AttributeError.\<close>

fun type_name :: "json \<Rightarrow> string" where
  "type_name JNull = ''NoneType''"
| "type_name (JBool b) = ''bool''"
| "type_name (JInt i) = ''int''"
| "type_name (JStr s) = ''str''"
| "type_name (JList xs) = ''list''"
| "type_name (JObj kvs) = ''dict''"

text \<open>
  The exceptions the turn can raise: \<open>AttributeError c a\<close> (an object of class \<open>c\<close>
  has no attribute \<open>a\<close>), \<open>TypeError\<close> (subscripting \<open>None\<close>) and \<open>IndexError\<close>
  (\<open>random.choice\<close> of an empty sequence).
\<close>

datatype error =
    AttributeError string string
  | TypeError string
  | IndexError string

definition bind_err :: "error + 'a \<Rightarrow> ('a \<Rightarrow> error + 'b) \<Rightarrow> error + 'b" where
  "bind_err m f = (case m of Inl e \<Rightarrow> Inl e | Inr v \<Rightarrow> f v)"

definition no_attribute :: "string \<Rightarrow> string \<Rightarrow> error + 'a" where
  "no_attribute cls name = Inl (AttributeError cls name)"

section \<open>Wire records\<close>

text \<open>
  The records of an inbound message, with the fields the client reads by subscript as
  mandatory fields and the fields it reads with \<open>.get\<close> as optional ones (\<open>None\<close>: the key
  is omitted). Coordinates, ids, health and amounts are integers, flags are booleans and
  the unit list of a tile is a list of JSON values. A record that lacks a mandatory key
  (a KeyError in the client) is not a value of these types.
\<close>

record unit_data =
  ud_id :: int
  ud_player_id :: int
  ud_x :: int
  ud_y :: int
  ud_type :: string
  ud_status :: string
  ud_health :: int
  ud_resource :: "int option"

record tile_data =
  td_x :: int
  td_y :: int
  td_visible :: bool
  td_blocked :: bool
  td_resources :: "int option"
  td_units :: "json list option"

record game_info =
  gi_map_width :: int
  gi_map_height :: int
  gi_unit_info :: "(string \<times> int option) list"

record message =
  msg_game_info :: "game_info option"
  msg_unit_updates :: "unit_data list option"
  msg_tile_updates :: "tile_data list option"

section \<open>Unit, Tile, World\<close>

record Unit =
  unit_id :: int
  player_id :: int
  unit_x :: int
  unit_y :: int
  unit_type :: string
  status :: string
  health :: int
  resource :: int

text \<open>\<open>Unit.__init__\<close>: the carried resource defaults to 0.\<close>

definition Unit_init :: "unit_data \<Rightarrow> Unit" where
  "Unit_init d =
     \<lparr> unit_id = ud_id d, player_id = ud_player_id d, unit_x = ud_x d, unit_y = ud_y d,
       unit_type = ud_type d, status = ud_status d, health = ud_health d,
       resource = (case ud_resource d of None \<Rightarrow> 0 | Some r \<Rightarrow> r) \<rparr>"

text \<open>\<open>Unit.update\<close>: position, status and health are overwritten, the resource only
  when the record carries one; id, player id and type are not assigned.\<close>

definition Unit_update :: "Unit \<Rightarrow> unit_data \<Rightarrow> Unit" where
  "Unit_update u d =
     u\<lparr> unit_x := ud_x d, unit_y := ud_y d, status := ud_status d, health := ud_health d,
        resource := (case ud_resource d of None \<Rightarrow> resource u | Some r \<Rightarrow> r) \<rparr>"

definition is_idle :: "Unit \<Rightarrow> bool" where
  "is_idle u = (status u = ''idle'')"

record Tile =
  tile_x :: int
  tile_y :: int
  visible :: bool
  blocked :: bool
  tile_resources :: "int option"
  tile_units :: "json list"

text \<open>\<open>Tile.__init__\<close>: omitted resources become \<open>None\<close>, an omitted unit list \<open>[]\<close>.\<close>

definition Tile_init :: "tile_data \<Rightarrow> Tile" where
  "Tile_init d =
     \<lparr> tile_x = td_x d, tile_y = td_y d, visible = td_visible d, blocked = td_blocked d,
       tile_resources = td_resources d,
       tile_units = (case td_units d of None \<Rightarrow> [] | Some us \<Rightarrow> us) \<rparr>"

text \<open>\<open>Tile.update\<close>: the merge that keeps omitted resources and units. No function of
  the client calls it.\<close>

definition Tile_update :: "Tile \<Rightarrow> tile_data \<Rightarrow> Tile" where
  "Tile_update t d =
     t\<lparr> visible := td_visible d, blocked := td_blocked d,
        tile_resources := (case td_resources d of None \<Rightarrow> tile_resources t | Some r \<Rightarrow> Some r),
        tile_units := (case td_units d of None \<Rightarrow> tile_units t | Some us \<Rightarrow> us) \<rparr>"

text \<open>
  \<open>units_by_id\<close> is a Python dictionary that is iterated (\<open>.values()\<close>), so it is an
  association list in insertion order, the order of a Python 3 dictionary: assigning to a
  known key keeps its place, a new key goes to the end (\<open>AList.update\<close>). \<open>tiles\<close>
  is only read by key.
\<close>

record World =
  units_by_id :: "(int \<times> Unit) list"
  tiles :: "int \<times> int \<rightharpoonup> Tile"

definition World_init :: World where
  "World_init = \<lparr> units_by_id = [], tiles = Map.empty \<rparr>"

definition update_unit :: "unit_data \<Rightarrow> (int \<times> Unit) list \<Rightarrow> (int \<times> Unit) list" where
  "update_unit d us =
     (case map_of us (ud_id d) of
        Some u \<Rightarrow> AList.update (ud_id d) (Unit_update u d) us
      | None \<Rightarrow> AList.update (ud_id d) (Unit_init d) us)"

definition update_units :: "World \<Rightarrow> unit_data list \<Rightarrow> World" where
  "update_units w unit_updates = w\<lparr> units_by_id := fold update_unit unit_updates (units_by_id w) \<rparr>"

definition update_tile :: "tile_data \<Rightarrow> (int \<times> int \<rightharpoonup> Tile) \<Rightarrow> (int \<times> int \<rightharpoonup> Tile)" where
  "update_tile d ts = ts((td_x d, td_y d) \<mapsto> Tile_init d)"

definition update_tiles :: "World \<Rightarrow> tile_data list \<Rightarrow> World" where
  "update_tiles w tile_updates = w\<lparr> tiles := fold update_tile tile_updates (tiles w) \<rparr>"

definition get_tile :: "World \<Rightarrow> int \<Rightarrow> int \<Rightarrow> Tile option" where
  "get_tile w x y = tiles w (x, y)"

section \<open>Game: session state and spatial queries\<close>

text \<open>\<open>unit_costs\<close> is an attribute that exists only once a game_info message has been
  processed (\<open>None\<close> before).\<close>

record Game =
  world :: World
  base_location :: "(int \<times> int) option"
  resources :: int
  map_width :: int
  map_height :: int
  unit_costs :: "(string \<times> int) list option"

definition Game_init :: Game where
  "Game_init = \<lparr> world = World_init, base_location = None, resources = 0,
                 map_width = 0, map_height = 0, unit_costs = None \<rparr>"

text \<open>Python's \<open>range(n)\<close> for an integer \<open>n\<close> (empty when \<open>n \<le> 0\<close>).\<close>

definition range_py :: "int \<Rightarrow> int list" where
  "range_py n = map int [0..<nat n]"

text \<open>The coordinates visited by the nested loops \<open>for x in range(map_width): for y in
  range(map_height)\<close>, in the order they are visited.\<close>

definition scan_order :: "Game \<Rightarrow> (int \<times> int) list" where
  "scan_order g = concat (map (\<lambda>x. map (\<lambda>y. (x, y)) (range_py (map_height g))) (range_py (map_width g)))"

definition manhattan_distance :: "int \<Rightarrow> int \<Rightarrow> int \<Rightarrow> int \<Rightarrow> int" where
  "manhattan_distance x1 y1 x2 y2 = \<bar>x2 - x1\<bar> + \<bar>y2 - y1\<bar>"

text \<open>\<open>distance < min_distance\<close>, where \<open>min_distance\<close> starts as \<open>float('inf')\<close>
  (\<open>None\<close>).\<close>

definition below :: "int \<Rightarrow> int option \<Rightarrow> bool" where
  "below d m = (case m of None \<Rightarrow> True | Some v \<Rightarrow> d < v)"

definition is_tile_blocked :: "Game \<Rightarrow> int \<Rightarrow> int \<Rightarrow> bool" where
  "is_tile_blocked g x y = (case get_tile (world g) x y of None \<Rightarrow> False | Some t \<Rightarrow> blocked t)"

text \<open>Truth value of \<open>tile.resources\<close>: \<open>None\<close> and 0 are false.\<close>

definition has_resources :: "Tile \<Rightarrow> bool" where
  "has_resources t = (case tile_resources t of None \<Rightarrow> False | Some r \<Rightarrow> r \<noteq> 0)"

definition resource_step :: "Game \<Rightarrow> Unit \<Rightarrow> int \<times> int \<Rightarrow> int option \<times> Tile option \<Rightarrow> int option \<times> Tile option" where
  "resource_step g u p acc =
     (case get_tile (world g) (fst p) (snd p) of
        None \<Rightarrow> acc
      | Some t \<Rightarrow>
          if visible t \<and> has_resources t \<and> \<not> is_tile_blocked g (fst p) (snd p) then
            (let distance = manhattan_distance (unit_x u) (unit_y u) (fst p) (snd p)
             in if below distance (fst acc) then (Some distance, Some t) else acc)
          else acc)"

definition find_nearest_resource :: "Game \<Rightarrow> Unit \<Rightarrow> Tile option" where
  "find_nearest_resource g u = snd (fold (resource_step g u) (scan_order g) (None, None))"

text \<open>The inner loop \<open>for enemy in tile.units\<close>: the distance is the one to the tile.\<close>

definition enemy_unit_step :: "int \<Rightarrow> json \<Rightarrow> int option \<times> json option \<Rightarrow> int option \<times> json option" where
  "enemy_unit_step distance enemy acc =
     (if below distance (fst acc) then (Some distance, Some enemy) else acc)"

definition enemy_step :: "Game \<Rightarrow> Unit \<Rightarrow> int \<times> int \<Rightarrow> int option \<times> json option \<Rightarrow> int option \<times> json option" where
  "enemy_step g u p acc =
     (case get_tile (world g) (fst p) (snd p) of
        None \<Rightarrow> acc
      | Some t \<Rightarrow>
          if visible t \<and> tile_units t \<noteq> [] then
            fold (enemy_unit_step (manhattan_distance (unit_x u) (unit_y u) (fst p) (snd p)))
                 (tile_units t) acc
          else acc)"

definition find_nearest_enemy :: "Game \<Rightarrow> Unit \<Rightarrow> json option" where
  "find_nearest_enemy g u = snd (fold (enemy_step g u) (scan_order g) (None, None))"

definition worker_step :: "Unit \<Rightarrow> Unit \<Rightarrow> int option \<times> Unit option \<Rightarrow> int option \<times> Unit option" where
  "worker_step u other acc =
     (if unit_type other = ''worker'' \<and> unit_id other \<noteq> unit_id u then
        (let distance = manhattan_distance (unit_x u) (unit_y u) (unit_x other) (unit_y other)
         in if below distance (fst acc) then (Some distance, Some other) else acc)
      else acc)"

definition find_nearest_worker :: "Game \<Rightarrow> Unit \<Rightarrow> Unit option" where
  "find_nearest_worker g u = snd (fold (worker_step u) (map snd (units_by_id (world g))) (None, None))"

section \<open>Adjacency, range and directions\<close>

text \<open>
  \<open>is_adjacent\<close> and \<open>is_in_range\<close> read \<open>.x\<close> and \<open>.y\<close> of whatever object they are
  given. The client passes them Unit and Tile objects and, in the tank rule, an element of
  a tile's unit list, which is a decoded JSON value and has no such attributes.
\<close>

datatype pyobj = UnitObj Unit | TileObj Tile | JsonVal json

fun attr_x :: "pyobj \<Rightarrow> error + int" where
  "attr_x (UnitObj u) = Inr (unit_x u)"
| "attr_x (TileObj t) = Inr (tile_x t)"
| "attr_x (JsonVal j) = no_attribute (type_name j) ''x''"

fun attr_y :: "pyobj \<Rightarrow> error + int" where
  "attr_y (UnitObj u) = Inr (unit_y u)"
| "attr_y (TileObj t) = Inr (tile_y t)"
| "attr_y (JsonVal j) = no_attribute (type_name j) ''y''"

fun py_truthy :: "pyobj \<Rightarrow> bool" where
  "py_truthy (UnitObj u) = True"
| "py_truthy (TileObj t) = True"
| "py_truthy (JsonVal j) = truthy j"

definition is_adjacent :: "Unit \<Rightarrow> pyobj \<Rightarrow> error + bool" where
  "is_adjacent u target =
     bind_err (attr_x target) (\<lambda>tx. bind_err (attr_y target) (\<lambda>ty.
       Inr (manhattan_distance (unit_x u) (unit_y u) tx ty = 1)))"

definition vision_range :: "string \<Rightarrow> int" where
  "vision_range t = (if t = ''worker'' then 2 else if t = ''scout'' then 5
                     else if t = ''tank'' then 2 else 2)"

definition is_in_range :: "Unit \<Rightarrow> pyobj \<Rightarrow> error + bool" where
  "is_in_range u target =
     bind_err (attr_x target) (\<lambda>tx. bind_err (attr_y target) (\<lambda>ty.
       Inr (manhattan_distance (unit_x u) (unit_y u) tx ty \<le> vision_range (unit_type u))))"

datatype direction = N | S | E | W

fun dir_name :: "direction \<Rightarrow> string" where
  "dir_name N = ''N''"
| "dir_name S = ''S''"
| "dir_name E = ''E''"
| "dir_name W = ''W''"

definition get_direction_to_tile :: "Unit \<Rightarrow> Tile \<Rightarrow> direction" where
  "get_direction_to_tile u t =
     (let dx = tile_x t - unit_x u; dy = tile_y t - unit_y u
      in if \<bar>dx\<bar> > \<bar>dy\<bar> then (if dx > 0 then E else W)
         else (if dy > 0 then S else N))"

definition get_direction_to_coordinates :: "Unit \<Rightarrow> int \<Rightarrow> int \<Rightarrow> direction" where
  "get_direction_to_coordinates u target_x target_y =
     (let dx = target_x - unit_x u; dy = target_y - unit_y u
      in if \<bar>dx\<bar> > \<bar>dy\<bar> then (if dx > 0 then E else W)
         else (if dy > 0 then S else N))"

text \<open>\<open>can_afford\<close> compares the stockpile with its own local cost table; a type that is
  not in the table costs \<open>float('inf')\<close>.\<close>

definition local_unit_costs :: "(string \<times> int) list" where
  "local_unit_costs = [(''worker'', 100), (''scout'', 130), (''tank'', 150)]"

definition can_afford :: "Game \<Rightarrow> string \<Rightarrow> bool" where
  "can_afford g t = (case map_of local_unit_costs t of None \<Rightarrow> False | Some c \<Rightarrow> resources g \<ge> c)"

section \<open>Exploration\<close>

text \<open>
  \<open>random.choice\<close> draws from the global generator. The generator is a parameter: the
  sequence of its future draws, of which each call consumes the first.
\<close>

type_synonym rng = "nat \<Rightarrow> nat"

definition random_choice :: "rng \<Rightarrow> 'a list \<Rightarrow> error + ('a \<times> rng)" where
  "random_choice r xs =
     (if xs = [] then Inl (IndexError ''Cannot choose from an empty sequence'')
      else Inr (xs ! (r 0 mod length xs), \<lambda>i. r (Suc i)))"

fun delta :: "direction \<Rightarrow> int \<times> int" where
  "delta N = (0, -1)"
| "delta S = (0, 1)"
| "delta E = (1, 0)"
| "delta W = (-1, 0)"

definition look_ahead :: "Game \<Rightarrow> Unit \<Rightarrow> direction \<Rightarrow> int \<Rightarrow> int" where
  "look_ahead g u d distance =
     (let x = unit_x u + fst (delta d) * distance; y = unit_y u + snd (delta d) * distance
      in if 0 \<le> x \<and> x < map_width g \<and> 0 \<le> y \<and> y < map_height g then
           (case get_tile (world g) x y of
              None \<Rightarrow> 3 - distance
            | Some t \<Rightarrow> if \<not> visible t then 3 - distance else 0)
         else 0)"

text \<open>The dictionary \<open>weights\<close> has the four directions as its keys throughout, in the
  order N, S, E, W; it is a function on directions.\<close>

definition weights :: "Game \<Rightarrow> Unit \<Rightarrow> direction \<Rightarrow> int" where
  "weights g u =
     (let w0 = (\<lambda>d. sum_list (map (look_ahead g u d) [1, 2, 3]))
      in if unit_type u = ''scout'' then
           (case base_location g of
              None \<Rightarrow> w0
            | Some b \<Rightarrow>
                (let base_direction = get_direction_to_coordinates u (fst b) (snd b)
                 in w0(base_direction := w0 base_direction - 2)))
         else w0)"

definition best_directions :: "Game \<Rightarrow> Unit \<Rightarrow> direction list" where
  "best_directions g u =
     (let w = weights g u; max_weight = max (w N) (max (w S) (max (w E) (w W)))
      in filter (\<lambda>d. w d = max_weight) [N, S, E, W])"

definition get_strategic_exploration_direction :: "rng \<Rightarrow> Game \<Rightarrow> Unit \<Rightarrow> error + (direction \<times> rng)" where
  "get_strategic_exploration_direction r g u = random_choice r (best_directions g u)"

section \<open>Commands and the per-turn policy\<close>

text \<open>A command is the dictionary that \<open>CommandBuilder\<close> returns, with its keys in the order
  they are written. \<open>CommandBuilder\<close> defines \<open>move\<close> and \<open>gather\<close> and nothing else.\<close>

type_synonym command = "(string \<times> json) list"

definition CommandBuilder_move :: "Unit \<Rightarrow> direction \<Rightarrow> command" where
  "CommandBuilder_move u d =
     [(''command'', JStr ''MOVE''), (''unit'', JInt (unit_id u)), (''dir'', JStr (dir_name d))]"

definition CommandBuilder_gather :: "Unit \<Rightarrow> direction \<Rightarrow> command" where
  "CommandBuilder_gather u d =
     [(''command'', JStr ''GATHER''), (''unit'', JInt (unit_id u)), (''dir'', JStr (dir_name d))]"

text \<open>The body of the worker loop. \<open>self.base_location[0]\<close> raises TypeError while the base
  location is \<open>None\<close>.\<close>

definition worker_command :: "rng \<Rightarrow> Game \<Rightarrow> Unit \<Rightarrow> error + (command \<times> rng)" where
  "worker_command r g worker =
     (if resource worker > 0 then
        (case base_location g of
           None \<Rightarrow> Inl (TypeError ''NoneType object is not subscriptable'')
         | Some b \<Rightarrow>
             Inr (CommandBuilder_move worker (get_direction_to_coordinates worker (fst b) (snd b)), r))
      else
        (case find_nearest_resource g worker of
           Some resource_tile \<Rightarrow>
             bind_err (is_adjacent worker (TileObj resource_tile)) (\<lambda>adjacent.
               if adjacent then
                 Inr (CommandBuilder_gather worker (get_direction_to_tile worker resource_tile), r)
               else
                 Inr (CommandBuilder_move worker (get_direction_to_tile worker resource_tile), r))
         | None \<Rightarrow>
             bind_err (get_strategic_exploration_direction r g worker) (\<lambda>dr.
               Inr (CommandBuilder_move worker (fst dr), snd dr))))"

fun worker_logic :: "rng \<Rightarrow> Game \<Rightarrow> Unit list \<Rightarrow> error + (command list \<times> rng)" where
  "worker_logic r g [] = Inr ([], r)"
| "worker_logic r g (worker # rest) =
     (case worker_command r g worker of
        Inl e \<Rightarrow> Inl e
      | Inr cr \<Rightarrow>
          (case worker_logic (snd cr) g rest of
             Inl e \<Rightarrow> Inl e
           | Inr csr \<Rightarrow> Inr (fst cr # fst csr, snd csr)))"

definition scout_command :: "rng \<Rightarrow> Game \<Rightarrow> Unit \<Rightarrow> error + (command \<times> rng)" where
  "scout_command r g scout =
     bind_err (get_strategic_exploration_direction r g scout) (\<lambda>dr.
       Inr (CommandBuilder_move scout (fst dr), snd dr))"

fun scout_logic :: "rng \<Rightarrow> Game \<Rightarrow> Unit list \<Rightarrow> error + (command list \<times> rng)" where
  "scout_logic r g [] = Inr ([], r)"
| "scout_logic r g (scout # rest) =
     (case scout_command r g scout of
        Inl e \<Rightarrow> Inl e
      | Inr cr \<Rightarrow>
          (case scout_logic (snd cr) g rest of
             Inl e \<Rightarrow> Inl e
           | Inr csr \<Rightarrow> Inr (fst cr # fst csr, snd csr)))"

text \<open>The tank rule. \<open>attack\<close> is the branch taken when the enemy is in range: both
  \<open>CommandBuilder.melee\<close> and \<open>CommandBuilder.shoot\<close> are looked up on a class that does
  not define them. \<open>patrol\<close> is the other branch.\<close>

definition attack :: "Unit \<Rightarrow> pyobj \<Rightarrow> error + command list" where
  "attack tank enemy =
     bind_err (is_adjacent tank enemy) (\<lambda>adjacent.
       if adjacent then no_attribute ''CommandBuilder'' ''melee''
       else
         bind_err (attr_x enemy) (\<lambda>ex. bind_err (attr_y enemy) (\<lambda>ey.
           no_attribute ''CommandBuilder'' ''shoot'')))"

definition patrol :: "Game \<Rightarrow> Unit \<Rightarrow> error + command list" where
  "patrol g tank =
     (case find_nearest_worker g tank of
        None \<Rightarrow> Inr []
      | Some worker \<Rightarrow>
          Inr [CommandBuilder_move tank
                 (get_direction_to_coordinates tank (unit_x worker) (unit_y worker))])"

definition tank_orders :: "Game \<Rightarrow> Unit \<Rightarrow> pyobj option \<Rightarrow> error + command list" where
  "tank_orders g tank enemy =
     (case enemy of
        None \<Rightarrow> patrol g tank
      | Some e \<Rightarrow>
          if py_truthy e then
            bind_err (is_in_range tank e) (\<lambda>in_range.
              if in_range then attack tank e else patrol g tank)
          else patrol g tank)"

definition tank_command :: "Game \<Rightarrow> Unit \<Rightarrow> error + command list" where
  "tank_command g tank = tank_orders g tank (map_option JsonVal (find_nearest_enemy g tank))"

fun tank_logic :: "Game \<Rightarrow> Unit list \<Rightarrow> error + command list" where
  "tank_logic g [] = Inr []"
| "tank_logic g (tank # rest) =
     (case tank_command g tank of
        Inl e \<Rightarrow> Inl e
      | Inr cs \<Rightarrow>
          (case tank_logic g rest of
             Inl e \<Rightarrow> Inl e
           | Inr cs' \<Rightarrow> Inr (cs @ cs')))"

text \<open>
  Unit creation. One condition of the chain is \<open>self.base_location and
  self.can_afford(t) and self.<t>_count < cap\<close>, evaluated left to right; the count is an
  attribute that \<open>Game\<close> never assigns, and \<open>CommandBuilder.create\<close> is not defined.
\<close>

definition may_create :: "Game \<Rightarrow> string \<Rightarrow> string \<Rightarrow> int \<Rightarrow> error + bool" where
  "may_create g t count_attr cap =
     (if base_location g \<noteq> None \<and> can_afford g t then
        bind_err (no_attribute ''Game'' count_attr) (\<lambda>count::int. Inr (count < cap))
      else Inr False)"

definition unit_creation :: "Game \<Rightarrow> error + command list" where
  "unit_creation g =
     bind_err (may_create g ''worker'' ''worker_count'' 5) (\<lambda>c1.
       if c1 then no_attribute ''CommandBuilder'' ''create''
       else bind_err (may_create g ''scout'' ''scout_count'' 2) (\<lambda>c2.
         if c2 then no_attribute ''CommandBuilder'' ''create''
         else bind_err (may_create g ''tank'' ''tank_count'' 3) (\<lambda>c3.
           if c3 then no_attribute ''CommandBuilder'' ''create''
           else Inr [])))"

definition idle_of_type :: "Game \<Rightarrow> string \<Rightarrow> Unit list" where
  "idle_of_type g t =
     filter (\<lambda>u. is_idle u \<and> unit_type u = t) (map snd (units_by_id (world g)))"

definition get_commands :: "rng \<Rightarrow> Game \<Rightarrow> error + (command list \<times> rng)" where
  "get_commands r g =
     bind_err (worker_logic r g (idle_of_type g ''worker'')) (\<lambda>wr.
       bind_err (scout_logic (snd wr) g (idle_of_type g ''scout'')) (\<lambda>sr.
         bind_err (tank_logic g (idle_of_type g ''tank'')) (\<lambda>ts.
           bind_err (unit_creation g) (\<lambda>cr.
             Inr (fst wr @ fst sr @ ts @ cr, snd sr)))))"

section \<open>The turn\<close>

definition track_base :: "unit_data \<Rightarrow> (int \<times> int) option \<Rightarrow> (int \<times> int) option" where
  "track_base d b = (if ud_type d = ''base'' then Some (ud_x d, ud_y d) else b)"

text \<open>The state changes of \<open>process_updates\<close>, which all happen before the commands are
  computed.\<close>

definition apply_message :: "Game \<Rightarrow> message \<Rightarrow> Game" where
  "apply_message g m =
     (let g1 = (case msg_game_info m of
                  None \<Rightarrow> g
                | Some gi \<Rightarrow>
                    g\<lparr> map_width := gi_map_width gi, map_height := gi_map_height gi,
                       unit_costs := Some (concat (map (\<lambda>ti. case snd ti of None \<Rightarrow> []
                                                         | Some c \<Rightarrow> [(fst ti, c)])
                                                       (gi_unit_info gi))) \<rparr>);
          g2 = (case msg_unit_updates m of
                  None \<Rightarrow> g1
                | Some us \<Rightarrow>
                    g1\<lparr> world := update_units (world g1) us,
                        base_location := fold track_base us (base_location g1) \<rparr>)
      in (case msg_tile_updates m of
            None \<Rightarrow> g2
          | Some ts \<Rightarrow> g2\<lparr> world := update_tiles (world g2) ts \<rparr>))"

text \<open>\<open>process_updates\<close> returns the state it leaves behind and either the exception that
  ended the turn or the command list of the response (which the client then serialises)
  with the rest of the random draws.\<close>

definition process_updates :: "rng \<Rightarrow> Game \<Rightarrow> message \<Rightarrow> Game \<times> (error + (command list \<times> rng))" where
  "process_updates r g m = (apply_message g m, get_commands r (apply_message g m))"

text \<open>\<open>NetworkHandler.handle\<close>: a fresh \<open>Game\<close>, then one turn per message until a turn
  raises. The result lists, turn by turn, the state after the turn and what the turn
  produced.\<close>

fun turns :: "rng \<Rightarrow> Game \<Rightarrow> message list \<Rightarrow> (Game \<times> (error + command list)) list" where
  "turns r g [] = []"
| "turns r g (m # ms) =
     (case process_updates r g m of
        (g', Inl e) \<Rightarrow> [(g', Inl e)]
      | (g', Inr cr) \<Rightarrow> (g', Inr (fst cr)) # turns (snd cr) g' ms)"

definition handle :: "rng \<Rightarrow> message list \<Rightarrow> (Game \<times> (error + command list)) list" where
  "handle r ms = turns r Game_init ms"

section \<open>Notions used in the statements\<close>

text \<open>A command dictionary whose \<open>"command"\<close> entry is \<open>"CREATE"\<close>.\<close>

definition is_create :: "command \<Rightarrow> bool" where
  "is_create c = (map_of c ''command'' = Some (JStr ''CREATE''))"

text \<open>The entry of a JSON object under a key.\<close>

definition json_field :: "string \<Rightarrow> json \<Rightarrow> json option" where
  "json_field k j = (case j of JObj kvs \<Rightarrow> map_of kvs k | _ \<Rightarrow> None)"

section \<open>Concrete sessions\<close>

text \<open>A generator whose every draw is 0.\<close>

definition rnd0 :: rng where
  "rnd0 = (\<lambda>i. 0)"

definition mk_unit_data :: "int \<Rightarrow> int \<Rightarrow> int \<Rightarrow> int \<Rightarrow> string \<Rightarrow> string \<Rightarrow> int option \<Rightarrow> unit_data" where
  "mk_unit_data i p x y t s r =
     \<lparr> ud_id = i, ud_player_id = p, ud_x = x, ud_y = y, ud_type = t, ud_status = s,
       ud_health = 100, ud_resource = r \<rparr>"

definition units_message :: "unit_data list \<Rightarrow> message" where
  "units_message us = \<lparr> msg_game_info = None, msg_unit_updates = Some us, msg_tile_updates = None \<rparr>"

text \<open>An idle worker (id 1, player 0) at (3,3) that carries 5, and a base (id 0, player 0)
  at (0,0) whose record reports 150.\<close>

definition returning_worker :: unit_data where
  "returning_worker = mk_unit_data 1 0 3 3 ''worker'' ''idle'' (Some 5)"

definition base_at_origin :: unit_data where
  "base_at_origin = mk_unit_data 0 0 0 0 ''base'' ''idle'' (Some 150)"

text \<open>Two later records for unit 1 that omit the resource; the first also names another
  player.\<close>

definition moved_busy :: unit_data where
  "moved_busy = mk_unit_data 1 7 4 3 ''worker'' ''busy'' None"

definition moved_again :: unit_data where
  "moved_again = mk_unit_data 1 0 5 3 ''worker'' ''idle'' None"

definition known_worker_world :: World where
  "known_worker_world = update_units World_init [returning_worker]"

definition info_10x10 :: game_info where
  "info_10x10 = \<lparr> gi_map_width = 10, gi_map_height = 10, gi_unit_info = [(''worker'', Some 100)] \<rparr>"

definition first_turn_message :: message where
  "first_turn_message =
     \<lparr> msg_game_info = Some info_10x10, msg_unit_updates = Some [base_at_origin],
       msg_tile_updates = None \<rparr>"

definition return_to_base_message :: message where
  "return_to_base_message = units_message [base_at_origin, returning_worker]"

definition after_two_turns :: Game where
  "after_two_turns = apply_message (apply_message Game_init first_turn_message) return_to_base_message"

definition at_base_turn :: Game where
  "at_base_turn = apply_message Game_init return_to_base_message"

definition move_north :: command where
  "move_north = [(''command'', JStr ''MOVE''), (''unit'', JInt 1), (''dir'', JStr ''N'')]"

definition move_west :: command where
  "move_west = [(''command'', JStr ''MOVE''), (''unit'', JInt 1), (''dir'', JStr ''W'')]"

text \<open>An idle tank (id 1, player 0) at (0,0) on a 3 by 3 map, and a tile that lists one
  unit, given as the JSON object of a unit record.\<close>

definition idle_tank :: unit_data where
  "idle_tank = mk_unit_data 1 0 0 0 ''tank'' ''idle'' None"

definition info_3x3 :: game_info where
  "info_3x3 = \<lparr> gi_map_width = 3, gi_map_height = 3, gi_unit_info = [] \<rparr>"

definition unit_json :: "int \<Rightarrow> int \<Rightarrow> int \<Rightarrow> int \<Rightarrow> json" where
  "unit_json i p x y =
     JObj [(''id'', JInt i), (''player_id'', JInt p), (''x'', JInt x), (''y'', JInt y),
           (''type'', JStr ''tank''), (''status'', JStr ''idle''), (''health'', JInt 100)]"

definition tile_with_units :: "int \<Rightarrow> int \<Rightarrow> json list \<Rightarrow> tile_data" where
  "tile_with_units x y us =
     \<lparr> td_x = x, td_y = y, td_visible = True, td_blocked = False, td_resources = None,
       td_units = Some us \<rparr>"

text \<open>The tile east of the tank lists a unit of player 1.\<close>

definition adjacent_enemy_message :: message where
  "adjacent_enemy_message =
     \<lparr> msg_game_info = Some info_3x3, msg_unit_updates = Some [idle_tank],
       msg_tile_updates = Some [tile_with_units 1 0 [unit_json 9 1 1 0]] \<rparr>"

text \<open>The tank's own tile lists the tank itself.\<close>

definition own_tile_message :: message where
  "own_tile_message =
     \<lparr> msg_game_info = Some info_3x3, msg_unit_updates = Some [idle_tank],
       msg_tile_updates = Some [tile_with_units 0 0 [unit_json 1 0 0 0]] \<rparr>"

definition enemy_unit :: Unit where
  "enemy_unit = Unit_init (mk_unit_data 9 1 1 0 ''tank'' ''idle'' None)"

text \<open>Two records for the tile (0,0): one with resources and units, one that omits both.\<close>

definition tile_full :: tile_data where
  "tile_full = \<lparr> td_x = 0, td_y = 0, td_visible = True, td_blocked = False,
                 td_resources = Some 50, td_units = Some [JInt 7] \<rparr>"

definition tile_bare :: tile_data where
  "tile_bare = \<lparr> td_x = 0, td_y = 0, td_visible = False, td_blocked = True,
                 td_resources = None, td_units = None \<rparr>"

section \<open>Evaluation of the concrete sessions\<close>

lemmas scenario_defs =
  first_turn_message_def return_to_base_message_def units_message_def info_10x10_def
  base_at_origin_def returning_worker_def mk_unit_data_def after_two_turns_def
  at_base_turn_def move_north_def

lemmas turn_defs =
  handle_def process_updates_def get_commands_def apply_message_def Game_init_def World_init_def
  update_units_def update_unit_def update_tiles_def update_tile_def Unit_init_def Unit_update_def
  Tile_init_def idle_of_type_def is_idle_def bind_err_def unit_creation_def may_create_def
  can_afford_def local_unit_costs_def track_base_def worker_command_def
  get_direction_to_coordinates_def CommandBuilder_move_def Let_def

lemma two_turns_trace:
  "handle rnd0 [first_turn_message, return_to_base_message] =
     [(apply_message Game_init first_turn_message, Inr []), (after_two_turns, Inr [move_north])]"
  by (simp add: turn_defs scenario_defs)

lemma second_turn_commands: "get_commands rnd0 after_two_turns = Inr ([move_north], rnd0)"
  by (simp add: turn_defs scenario_defs)

section \<open>Unit updates\<close>

lemma map_of_update_unit:
  "map_of (update_unit d us) i =
     (if ud_id d = i then Some (case map_of us i of Some u \<Rightarrow> Unit_update u d | None \<Rightarrow> Unit_init d)
      else map_of us i)"
  by (simp add: update_unit_def update_conv' split: option.splits)

lemma fold_update_unit_known:
  "map_of us i = Some u \<Longrightarrow>
   \<exists>u'. map_of (fold update_unit ds us) i = Some u' \<and> unit_id u' = unit_id u \<and> player_id u' = player_id u"
proof (induction ds arbitrary: us u)
  case Nil
  then show ?case by simp
next
  case (Cons d ds)
  let ?u1 = "if ud_id d = i then Unit_update u d else u"
  have step: "map_of (update_unit d us) i = Some ?u1"
    using Cons.prems by (simp add: map_of_update_unit)
  have same: "unit_id ?u1 = unit_id u \<and> player_id ?u1 = player_id u"
    by (simp add: Unit_update_def)
  from Cons.IH [OF step] same show ?case by simp
qed

text \<open>
  C5. A unit that the world knows under id \<open>i\<close> stays known under \<open>i\<close> through any batch
  of unit updates \<open>ds\<close>, with the id and the player id it had; so it does through one more
  record \<open>d\<close> for \<open>i\<close>, after which its resource is the one \<open>d\<close> carries or, when \<open>d\<close>
  omits the resource, the value the unit had just before \<open>d\<close>.
\<close>

theorem unit_merge_keeps_identity:
  assumes known: "map_of (units_by_id w) i = Some u" and same_id: "ud_id d = i"
  shows "\<exists>u' u''.
           map_of (units_by_id (update_units w ds)) i = Some u' \<and>
           map_of (units_by_id (update_units w (ds @ [d]))) i = Some u'' \<and>
           unit_id u' = unit_id u \<and> player_id u' = player_id u \<and>
           unit_id u'' = unit_id u \<and> player_id u'' = player_id u \<and>
           resource u'' = (case ud_resource d of None \<Rightarrow> resource u' | Some r \<Rightarrow> r)"
proof -
  from fold_update_unit_known [OF known, of ds] obtain u' where
    u': "map_of (fold update_unit ds (units_by_id w)) i = Some u'" and
    keep: "unit_id u' = unit_id u" "player_id u' = player_id u"
    by blast
  have last: "map_of (units_by_id (update_units w (ds @ [d]))) i = Some (Unit_update u' d)"
    using u' same_id by (simp add: update_units_def map_of_update_unit)
  have "unit_id (Unit_update u' d) = unit_id u \<and> player_id (Unit_update u' d) = player_id u \<and>
        resource (Unit_update u' d) = (case ud_resource d of None \<Rightarrow> resource u' | Some r \<Rightarrow> r)"
    using keep by (simp add: Unit_update_def)
  with u' keep last show ?thesis by (simp add: update_units_def)
qed

text \<open>
  Unit 1 of player 0 is created carrying 5; a record that names player 7 and omits the
  resource, then another that omits the resource, leave id 1, player 0 and resource 5.
\<close>

theorem unit_merge_keeps_identity_witness:
  "map_of (units_by_id known_worker_world) 1 = Some (Unit_init returning_worker) \<and>
   ud_id moved_again = 1 \<and>
   (\<exists>u' u''.
      map_of (units_by_id (update_units known_worker_world [moved_busy])) 1 = Some u' \<and>
      map_of (units_by_id (update_units known_worker_world ([moved_busy] @ [moved_again]))) 1 = Some u'' \<and>
      unit_id u' = 1 \<and> player_id u' = 0 \<and> unit_id u'' = 1 \<and> player_id u'' = 0 \<and>
      resource u'' = 5)"
proof -
  have known: "map_of (units_by_id known_worker_world) 1 = Some (Unit_init returning_worker)"
    by (simp add: known_worker_world_def update_units_def World_init_def update_unit_def
        returning_worker_def mk_unit_data_def)
  have same_id: "ud_id moved_again = 1"
    by (simp add: moved_again_def mk_unit_data_def)
  have first: "map_of (units_by_id (update_units known_worker_world [moved_busy])) 1 =
      Some (Unit_update (Unit_init returning_worker) moved_busy)"
    using known by (simp add: update_units_def map_of_update_unit moved_busy_def mk_unit_data_def)
  have vals: "unit_id (Unit_init returning_worker) = 1" "player_id (Unit_init returning_worker) = 0"
    "resource (Unit_update (Unit_init returning_worker) moved_busy) = 5"
    "ud_resource moved_again = None"
    by (simp_all add: Unit_init_def Unit_update_def returning_worker_def moved_busy_def
        moved_again_def mk_unit_data_def)
  from unit_merge_keeps_identity [OF known same_id, of "[moved_busy]"] first vals known same_id
  show ?thesis by auto
qed

section \<open>Directions\<close>

text \<open>
  C7. Both direction functions return E when \<open>|dx| > |dy|\<close> and \<open>dx > 0\<close>, W when
  \<open>|dx| > |dy|\<close> and \<open>dx < 0\<close>, S when \<open>|dx| \<le> |dy|\<close> and \<open>dy > 0\<close>, and N otherwise;
  a target at the unit's own position (\<open>dx = dy = 0\<close>) gives N.
\<close>

theorem direction_rule:
  "get_direction_to_coordinates u tx ty =
     (let dx = tx - unit_x u; dy = ty - unit_y u
      in if \<bar>dx\<bar> > \<bar>dy\<bar> \<and> dx > 0 then E
         else if \<bar>dx\<bar> > \<bar>dy\<bar> \<and> dx < 0 then W
         else if \<bar>dx\<bar> \<le> \<bar>dy\<bar> \<and> dy > 0 then S
         else N)
   \<and> get_direction_to_tile u t =
     (let dx = tile_x t - unit_x u; dy = tile_y t - unit_y u
      in if \<bar>dx\<bar> > \<bar>dy\<bar> \<and> dx > 0 then E
         else if \<bar>dx\<bar> > \<bar>dy\<bar> \<and> dx < 0 then W
         else if \<bar>dx\<bar> \<le> \<bar>dy\<bar> \<and> dy > 0 then S
         else N)
   \<and> get_direction_to_coordinates u (unit_x u) (unit_y u) = N
   \<and> get_direction_to_tile u (t\<lparr>tile_x := unit_x u, tile_y := unit_y u\<rparr>) = N"
proof -
  have coords: "get_direction_to_coordinates u tx ty =
     (let dx = tx - unit_x u; dy = ty - unit_y u
      in if \<bar>dx\<bar> > \<bar>dy\<bar> \<and> dx > 0 then E
         else if \<bar>dx\<bar> > \<bar>dy\<bar> \<and> dx < 0 then W
         else if \<bar>dx\<bar> \<le> \<bar>dy\<bar> \<and> dy > 0 then S
         else N)"
    unfolding get_direction_to_coordinates_def Let_def by auto
  have tile: "get_direction_to_tile u t =
     (let dx = tile_x t - unit_x u; dy = tile_y t - unit_y u
      in if \<bar>dx\<bar> > \<bar>dy\<bar> \<and> dx > 0 then E
         else if \<bar>dx\<bar> > \<bar>dy\<bar> \<and> dx < 0 then W
         else if \<bar>dx\<bar> \<le> \<bar>dy\<bar> \<and> dy > 0 then S
         else N)"
    unfolding get_direction_to_tile_def Let_def by auto
  have "get_direction_to_coordinates u (unit_x u) (unit_y u) = N"
    by (simp add: get_direction_to_coordinates_def)
  moreover have "get_direction_to_tile u (t\<lparr>tile_x := unit_x u, tile_y := unit_y u\<rparr>) = N"
    by (simp add: get_direction_to_tile_def)
  ultimately show ?thesis using coords tile by blast
qed

section \<open>The stockpile\<close>

lemma apply_message_resources: "resources (apply_message g m) = resources g"
  by (simp add: apply_message_def Let_def split: option.splits)

lemma turns_resources: "t \<in> set (turns r g ms) \<Longrightarrow> resources (fst t) = resources g"
proof (induction ms arbitrary: r g)
  case Nil
  then show ?case by simp
next
  case (Cons m ms)
  then show ?case
    by (auto simp: process_updates_def apply_message_resources split: sum.splits)
qed

lemma handle_resources: "t \<in> set (handle r ms) \<Longrightarrow> resources (fst t) = 0"
  using turns_resources [of t r Game_init ms] by (simp add: handle_def Game_init_def)

lemma can_afford_needs_100: "can_afford g t \<Longrightarrow> resources g \<ge> 100"
  by (auto simp: can_afford_def local_unit_costs_def split: option.splits if_splits)

text \<open>
  C10. \<open>process_updates\<close> leaves the stockpile as it finds it, the stockpile of a new
  \<open>Game\<close> is 0, and after every turn of every session the stockpile is 0, so that
  \<open>can_afford\<close> is false for worker, scout and tank.
\<close>

theorem stockpile_stays_zero:
  "resources (fst (process_updates r g m)) = resources g \<and>
   resources Game_init = 0 \<and>
   (\<forall>t\<in>set (handle r' ms).
      resources (fst t) = 0 \<and> \<not> can_afford (fst t) ''worker'' \<and>
      \<not> can_afford (fst t) ''scout'' \<and> \<not> can_afford (fst t) ''tank'')"
proof -
  have "resources (fst (process_updates r g m)) = resources g"
    by (simp add: process_updates_def apply_message_resources)
  moreover have "resources Game_init = 0"
    by (simp add: Game_init_def)
  moreover have "\<not> can_afford (fst t) ty" if "t \<in> set (handle r' ms)" for t ty
    using handle_resources [OF that] can_afford_needs_100 [of "fst t" ty] by auto
  ultimately show ?thesis using handle_resources by blast
qed

text \<open>
  A session of two turns: the game info with a base whose record reports 150, then the base
  and a worker. The state after the second turn has stockpile 0 and affords nothing.
\<close>

theorem stockpile_stays_zero_witness:
  "(after_two_turns, Inr [move_north]) \<in> set (handle rnd0 [first_turn_message, return_to_base_message]) \<and>
   resources (fst (process_updates rnd0 Game_init first_turn_message)) = resources Game_init \<and>
   resources after_two_turns = 0 \<and> \<not> can_afford after_two_turns ''worker'' \<and>
   \<not> can_afford after_two_turns ''scout'' \<and> \<not> can_afford after_two_turns ''tank''"
proof -
  have turn: "(after_two_turns, Inr [move_north]) \<in> set (handle rnd0 [first_turn_message, return_to_base_message])"
    by (simp add: two_turns_trace)
  from stockpile_stays_zero [of rnd0 Game_init first_turn_message rnd0
      "[first_turn_message, return_to_base_message]"] turn
  show ?thesis by fastforce
qed

section \<open>Unit creation\<close>

lemma unit_creation_skips: "resources g < 100 \<Longrightarrow> unit_creation g = Inr []"
  using can_afford_needs_100 [of g]
  by (fastforce simp: unit_creation_def may_create_def bind_err_def)

lemma unit_creation_no_command: "unit_creation g = Inr cs \<Longrightarrow> cs = []"
  by (auto simp: unit_creation_def may_create_def bind_err_def no_attribute_def split: if_splits)

lemma move_not_create: "\<not> is_create (CommandBuilder_move u d)"
  by (simp add: is_create_def CommandBuilder_move_def)

lemma gather_not_create: "\<not> is_create (CommandBuilder_gather u d)"
  by (simp add: is_create_def CommandBuilder_gather_def)

lemma worker_command_not_create: "worker_command r g w = Inr (c, r') \<Longrightarrow> \<not> is_create c"
  by (auto simp: worker_command_def bind_err_def move_not_create gather_not_create
      split: if_splits option.splits sum.splits)

lemma worker_logic_not_create:
  "worker_logic r g ws = Inr (cs, r') \<Longrightarrow> \<forall>c\<in>set cs. \<not> is_create c"
proof (induction ws arbitrary: r cs r')
  case Nil
  then show ?case by auto
next
  case (Cons w ws)
  from Cons.prems obtain c r1 cs1 where
    c: "worker_command r g w = Inr (c, r1)" and
    cs1: "worker_logic r1 g ws = Inr (cs1, r')" and
    cs: "cs = c # cs1"
    by (auto split: sum.splits)
  from worker_command_not_create [OF c] Cons.IH [OF cs1] cs show ?case by simp
qed

lemma scout_command_not_create: "scout_command r g w = Inr (c, r') \<Longrightarrow> \<not> is_create c"
  by (auto simp: scout_command_def bind_err_def move_not_create split: sum.splits)

lemma scout_logic_not_create:
  "scout_logic r g ws = Inr (cs, r') \<Longrightarrow> \<forall>c\<in>set cs. \<not> is_create c"
proof (induction ws arbitrary: r cs r')
  case Nil
  then show ?case by auto
next
  case (Cons w ws)
  from Cons.prems obtain c r1 cs1 where
    c: "scout_command r g w = Inr (c, r1)" and
    cs1: "scout_logic r1 g ws = Inr (cs1, r')" and
    cs: "cs = c # cs1"
    by (auto split: sum.splits)
  from scout_command_not_create [OF c] Cons.IH [OF cs1] cs show ?case by simp
qed

text \<open>Every path through \<open>attack\<close> ends in a failed attribute lookup, so a tank that
  issues a command is patrolling.\<close>

lemma attack_raises: "attack tank enemy \<noteq> Inr cs"
  by (auto simp: attack_def bind_err_def no_attribute_def split: sum.splits)

lemma patrol_not_create: "patrol g tank = Inr cs \<Longrightarrow> \<forall>c\<in>set cs. \<not> is_create c"
  by (auto simp: patrol_def move_not_create split: option.splits)

lemma tank_orders_patrol: "tank_orders g tank enemy = Inr cs \<Longrightarrow> patrol g tank = Inr cs"
  by (auto simp: tank_orders_def bind_err_def attack_raises split: option.splits if_splits sum.splits)

lemma tank_logic_not_create:
  "tank_logic g ts = Inr cs \<Longrightarrow> \<forall>c\<in>set cs. \<not> is_create c"
proof (induction ts arbitrary: cs)
  case Nil
  then show ?case by auto
next
  case (Cons t ts)
  from Cons.prems obtain cs0 cs1 where
    c: "tank_command g t = Inr cs0" and
    cs1: "tank_logic g ts = Inr cs1" and
    cs: "cs = cs0 @ cs1"
    by (auto split: sum.splits)
  from c have "patrol g t = Inr cs0"
    by (simp add: tank_command_def tank_orders_patrol)
  from patrol_not_create [OF this] Cons.IH [OF cs1] cs show ?case by auto
qed

lemma get_commands_not_create:
  assumes "get_commands r g = Inr (cs, r')"
  shows "\<forall>c\<in>set cs. \<not> is_create c"
proof -
  from assms obtain c1 r1 c2 c3 c4 where
    w: "worker_logic r g (idle_of_type g ''worker'') = Inr (c1, r1)" and
    s: "scout_logic r1 g (idle_of_type g ''scout'') = Inr (c2, r')" and
    t: "tank_logic g (idle_of_type g ''tank'') = Inr c3" and
    u: "unit_creation g = Inr c4" and
    cs: "cs = c1 @ c2 @ c3 @ c4"
    by (auto simp: get_commands_def bind_err_def split: sum.splits)
  from worker_logic_not_create [OF w] scout_logic_not_create [OF s] tank_logic_not_create [OF t]
    unit_creation_no_command [OF u] cs
  show ?thesis by auto
qed

text \<open>The command list recorded for a turn of a session is what \<open>get_commands\<close> returned
  on the state recorded for that turn.\<close>

lemma turns_commands:
  "t \<in> set (turns r g ms) \<Longrightarrow> snd t = Inr cs \<Longrightarrow> \<exists>r1 r2. get_commands r1 (fst t) = Inr (cs, r2)"
proof (induction ms arbitrary: r g)
  case Nil
  then show ?case by simp
next
  case (Cons m ms)
  show ?case
  proof (cases "get_commands r (apply_message g m)")
    case (Inl e)
    with Cons.prems show ?thesis by (simp add: process_updates_def)
  next
    case (Inr cr)
    with Cons.prems have
      "t = (apply_message g m, Inr (fst cr)) \<or> t \<in> set (turns (snd cr) (apply_message g m) ms)"
      by (simp add: process_updates_def)
    then show ?thesis
    proof
      assume "t = (apply_message g m, Inr (fst cr))"
      with Cons.prems(2) Inr show ?thesis by (cases cr) auto
    next
      assume "t \<in> set (turns (snd cr) (apply_message g m) ms)"
      from Cons.IH [OF this Cons.prems(2)] show ?thesis .
    qed
  qed
qed

text \<open>
  C6. A command list that \<open>get_commands\<close> returns, in any state, holds no CREATE command:
  hence at most one, and none for a type the stockpile does not cover. With a stockpile
  below 100, the cheapest cost, unit creation adds no command and raises nothing. On every
  turn of every session unit creation adds no command and raises nothing (the stockpile is
  0 there, so the conditions stop at \<open>can_afford\<close> and the count caps are never read), and
  the turn's command list holds no CREATE command.
\<close>

theorem creation_never_issued:
  "(get_commands r g = Inr (cs, r') \<longrightarrow>
      length (filter is_create cs) \<le> 1 \<and> (\<forall>c\<in>set cs. \<not> is_create c))
   \<and> (resources g < 100 \<longrightarrow> unit_creation g = Inr [])
   \<and> (\<forall>t\<in>set (handle r0 ms).
        unit_creation (fst t) = Inr [] \<and>
        (\<forall>cs'. snd t = Inr cs' \<longrightarrow> filter is_create cs' = []))"
proof -
  have any: "filter is_create cs = []" if "get_commands r g = Inr (cs, r')" for r g cs r'
    using get_commands_not_create [OF that] by (simp add: filter_empty_conv)
  have skip: "unit_creation (fst t) = Inr []" if "t \<in> set (handle r0 ms)" for t
    using handle_resources [OF that] by (simp add: unit_creation_skips)
  have sess: "filter is_create cs' = []" if "t \<in> set (handle r0 ms)" "snd t = Inr cs'" for t cs'
    using turns_commands [of t r0 Game_init ms cs'] that any by (auto simp: handle_def)
  from any [of r g cs r'] skip sess unit_creation_skips [of g] show ?thesis
    by (auto simp: filter_empty_conv)
qed

text \<open>
  The second turn of the two-turn session: the base is known, the stockpile is 0, the
  command list is the worker's MOVE alone and unit creation contributes nothing.
\<close>

theorem creation_never_issued_witness:
  "get_commands rnd0 after_two_turns = Inr ([move_north], rnd0) \<and>
   length (filter is_create [move_north]) \<le> 1 \<and> \<not> is_create move_north \<and>
   resources after_two_turns < 100 \<and> unit_creation after_two_turns = Inr [] \<and>
   (after_two_turns, Inr [move_north]) \<in> set (handle rnd0 [first_turn_message, return_to_base_message]) \<and>
   filter is_create [move_north] = []"
proof -
  have cmds: "get_commands rnd0 after_two_turns = Inr ([move_north], rnd0)"
    by (rule second_turn_commands)
  have poor: "resources after_two_turns < 100"
    by (simp add: after_two_turns_def apply_message_resources Game_init_def)
  have turn: "(after_two_turns, Inr [move_north]) \<in> set (handle rnd0 [first_turn_message, return_to_base_message])"
    by (simp add: two_turns_trace)
  from creation_never_issued [of rnd0 after_two_turns "[move_north]" rnd0 rnd0
      "[first_turn_message, return_to_base_message]"] cmds poor turn
  show ?thesis by fastforce
qed

text \<open>
  C4. The first message sets a 10 by 10 map and a worker cost of 100 and reports a base
  whose record carries 150. The client stores the map size, the cost table and the base
  location, but its stockpile stays 0 and the turn's command list is empty: no CREATE
  command. In the same state with the stockpile set to 150 the turn raises, because
  \<open>Game\<close> has no \<open>worker_count\<close>.
\<close>

theorem affordable_worker_not_created:
  "ud_resource base_at_origin = Some 150 \<and>
   map snd (handle rnd0 [first_turn_message]) = [Inr []] \<and>
   resources (apply_message Game_init first_turn_message) = 0 \<and>
   unit_costs (apply_message Game_init first_turn_message) = Some [(''worker'', 100)] \<and>
   map_width (apply_message Game_init first_turn_message) = 10 \<and>
   map_height (apply_message Game_init first_turn_message) = 10 \<and>
   base_location (apply_message Game_init first_turn_message) = Some (0, 0) \<and>
   get_commands rnd0 ((apply_message Game_init first_turn_message)\<lparr>resources := 150\<rparr>)
     = Inl (AttributeError ''Game'' ''worker_count'')"
  by (simp add: turn_defs scenario_defs no_attribute_def)

section \<open>Workers returning to the base\<close>

text \<open>
  C8. When the first idle worker in iteration order carries 5 and stands at (3,3), the base
  is known at (0,0) and the turn returns a command list, the first command is that worker's
  MOVE with direction N: \<open>|dx| = |dy| = 3\<close> is not \<open>|dx| > |dy|\<close>, so the \<open>dy\<close> branch
  decides, and \<open>dy < 0\<close> gives N.
\<close>

theorem returning_worker_heads_north:
  assumes first: "idle_of_type g ''worker'' = w # ws"
    and carrying: "resource w = 5" and at: "unit_x w = 3" "unit_y w = 3"
    and base: "base_location g = Some (0, 0)"
    and issued: "get_commands r g = Inr (cs, r')"
  shows "\<exists>rest. cs = CommandBuilder_move w N # rest"
proof -
  have cmd: "worker_command r g w = Inr (CommandBuilder_move w N, r)"
    using carrying at base by (simp add: worker_command_def get_direction_to_coordinates_def)
  from issued first obtain c1 r1 where
    w: "worker_logic r g (w # ws) = Inr (c1, r1)" and "\<exists>more. cs = c1 @ more"
    by (auto simp: get_commands_def bind_err_def split: sum.splits)
  moreover from w cmd have "\<exists>cs1. c1 = CommandBuilder_move w N # cs1"
    by (auto split: sum.splits)
  ultimately show ?thesis by auto
qed

text \<open>The turn that reports the base at (0,0) and the worker at (3,3): its command list is
  the MOVE of unit 1 to the north.\<close>

theorem returning_worker_heads_north_witness:
  "idle_of_type at_base_turn ''worker'' = [Unit_init returning_worker] \<and>
   resource (Unit_init returning_worker) = 5 \<and>
   unit_x (Unit_init returning_worker) = 3 \<and> unit_y (Unit_init returning_worker) = 3 \<and>
   base_location at_base_turn = Some (0, 0) \<and>
   get_commands rnd0 at_base_turn = Inr ([move_north], rnd0) \<and>
   (\<exists>rest. [move_north] = CommandBuilder_move (Unit_init returning_worker) N # rest)"
proof -
  have first: "idle_of_type at_base_turn ''worker'' = Unit_init returning_worker # []"
    by (simp add: turn_defs scenario_defs)
  have vals: "resource (Unit_init returning_worker) = 5"
    "unit_x (Unit_init returning_worker) = 3" "unit_y (Unit_init returning_worker) = 3"
    by (simp_all add: Unit_init_def scenario_defs)
  have base: "base_location at_base_turn = Some (0, 0)"
    by (simp add: turn_defs scenario_defs)
  have issued: "get_commands rnd0 at_base_turn = Inr ([move_north], rnd0)"
    by (simp add: turn_defs scenario_defs)
  from returning_worker_heads_north [OF first vals base issued] first vals base issued
  show ?thesis by simp
qed

text \<open>In that session the only command is MOVE north, which is not the MOVE west of the
  same unit.\<close>

theorem returning_worker_not_west:
  "map snd (handle rnd0 [return_to_base_message]) = [Inr [move_north]] \<and>
   move_north = CommandBuilder_move (Unit_init returning_worker) N \<and>
   move_north \<noteq> move_west \<and>
   move_west = CommandBuilder_move (Unit_init returning_worker) W \<and>
   get_direction_to_coordinates (Unit_init returning_worker) 0 0 = N"
  by (simp add: turn_defs scenario_defs move_west_def)

text \<open>While the base location is \<open>None\<close>, the rule for a worker that carries resources
  raises.\<close>

lemma worker_without_base:
  "base_location g = None \<Longrightarrow> resource w > 0 \<Longrightarrow>
   worker_command r g w = Inl (TypeError ''NoneType object is not subscriptable'')"
  by (simp add: worker_command_def)

text \<open>
  C2. A first message that reports an idle worker carrying 5 and no base: the base location
  is still \<open>None\<close>, and the turn ends in a TypeError instead of a command list.
\<close>

theorem carrying_worker_without_base_raises:
  "base_location (apply_message Game_init (units_message [returning_worker])) = None \<and>
   idle_of_type (apply_message Game_init (units_message [returning_worker])) ''worker''
     = [Unit_init returning_worker] \<and>
   resource (Unit_init returning_worker) = 5 \<and>
   map snd (handle rnd0 [units_message [returning_worker]])
     = [Inl (TypeError ''NoneType object is not subscriptable'')]"
  by (simp add: turn_defs scenario_defs)

section \<open>Tanks and enemies\<close>

text \<open>
  C3. An idle tank at (0,0) and a visible tile at (1,0) that lists a unit of another player:
  \<open>find_nearest_enemy\<close> returns that list element, a JSON object, and the turn ends in an
  AttributeError when \<open>is_in_range\<close> reads its \<open>.x\<close>; no MELEE command is issued. Given
  the same enemy as a Unit object, in range and adjacent, the tank rule still raises,
  because \<open>CommandBuilder\<close> has no \<open>melee\<close>.
\<close>

theorem adjacent_enemy_raises:
  "map snd (handle rnd0 [adjacent_enemy_message]) = [Inl (AttributeError ''dict'' ''x'')] \<and>
   find_nearest_enemy (apply_message Game_init adjacent_enemy_message) (Unit_init idle_tank)
     = Some (unit_json 9 1 1 0) \<and>
   is_in_range (Unit_init idle_tank) (UnitObj enemy_unit) = Inr True \<and>
   is_adjacent (Unit_init idle_tank) (UnitObj enemy_unit) = Inr True \<and>
   tank_orders (apply_message Game_init adjacent_enemy_message) (Unit_init idle_tank)
     (Some (UnitObj enemy_unit)) = Inl (AttributeError ''CommandBuilder'' ''melee'')"
  by code_simp

lemma enemy_step_player: "enemy_step g (v\<lparr>player_id := p\<rparr>) = enemy_step g v"
  by (simp add: enemy_step_def fun_eq_iff split: option.splits)

text \<open>
  C9. There is a first message after which a known unit stands on a visible tile whose unit
  list holds an element with that unit's own id and player id, and \<open>find_nearest_enemy\<close>,
  asked for that unit, returns this element. In general its result does not depend on the
  player id of the unit that asks.
\<close>

theorem nearest_enemy_ignores_owner:
  "(\<exists>m u t e.
      map_of (units_by_id (world (apply_message Game_init m))) (unit_id u) = Some u \<and>
      get_tile (world (apply_message Game_init m)) (unit_x u) (unit_y u) = Some t \<and>
      visible t \<and> e \<in> set (tile_units t) \<and>
      json_field ''id'' e = Some (JInt (unit_id u)) \<and>
      json_field ''player_id'' e = Some (JInt (player_id u)) \<and>
      find_nearest_enemy (apply_message Game_init m) u = Some e)
   \<and> find_nearest_enemy g (v\<lparr>player_id := p\<rparr>) = find_nearest_enemy g v"
proof -
  let ?g = "apply_message Game_init own_tile_message"
  let ?u = "Unit_init idle_tank"
  let ?t = "Tile_init (tile_with_units 0 0 [unit_json 1 0 0 0])"
  let ?e = "unit_json 1 0 0 0"
  have "map_of (units_by_id (world ?g)) (unit_id ?u) = Some ?u"
    by code_simp
  moreover have "get_tile (world ?g) (unit_x ?u) (unit_y ?u) = Some ?t"
    by code_simp
  moreover have "visible ?t" "?e \<in> set (tile_units ?t)"
    by code_simp+
  moreover have "json_field ''id'' ?e = Some (JInt (unit_id ?u))"
    "json_field ''player_id'' ?e = Some (JInt (player_id ?u))"
    by code_simp+
  moreover have "find_nearest_enemy ?g ?u = Some ?e"
    by code_simp
  ultimately have ex: "\<exists>m u t e.
      map_of (units_by_id (world (apply_message Game_init m))) (unit_id u) = Some u \<and>
      get_tile (world (apply_message Game_init m)) (unit_x u) (unit_y u) = Some t \<and>
      visible t \<and> e \<in> set (tile_units t) \<and>
      json_field ''id'' e = Some (JInt (unit_id u)) \<and>
      json_field ''player_id'' e = Some (JInt (player_id u)) \<and>
      find_nearest_enemy (apply_message Game_init m) u = Some e"
    by blast
  have "find_nearest_enemy g (v\<lparr>player_id := p\<rparr>) = find_nearest_enemy g v"
    by (simp add: find_nearest_enemy_def enemy_step_player)
  with ex show ?thesis by blast
qed

section \<open>Tile updates\<close>

text \<open>Whatever the world held, the tile stored for the last record of a batch is the tile
  that \<open>Tile.__init__\<close> builds from that record alone.\<close>

lemma update_tiles_last:
  "tiles (update_tiles w (ds @ [d])) (td_x d, td_y d) = Some (Tile_init d)"
  by (simp add: update_tiles_def update_tile_def)

text \<open>
  C1. The tile (0,0) is first reported with resources 50 and a unit list, then by a record
  that omits both, in a second batch or later in the same batch. The stored tile takes
  \<open>visible\<close> and \<open>blocked\<close> from the second record, but its resources are \<open>None\<close> and
  its unit list is empty: the previous values are not retained. \<open>Tile.update\<close>, applied to
  the first tile and the second record, would retain them.
\<close>

theorem omitted_tile_fields_are_reset:
  "tiles (update_tiles World_init [tile_full]) (0, 0) =
     Some \<lparr> tile_x = 0, tile_y = 0, visible = True, blocked = False,
            tile_resources = Some 50, tile_units = [JInt 7] \<rparr> \<and>
   tiles (update_tiles (update_tiles World_init [tile_full]) [tile_bare]) (0, 0) =
     Some \<lparr> tile_x = 0, tile_y = 0, visible = False, blocked = True,
            tile_resources = None, tile_units = [] \<rparr> \<and>
   tiles (update_tiles World_init [tile_full, tile_bare]) (0, 0) =
     Some \<lparr> tile_x = 0, tile_y = 0, visible = False, blocked = True,
            tile_resources = None, tile_units = [] \<rparr> \<and>
   Tile_update (Tile_init tile_full) tile_bare =
     \<lparr> tile_x = 0, tile_y = 0, visible = False, blocked = True,
       tile_resources = Some 50, tile_units = [JInt 7] \<rparr>"
  by (simp add: update_tiles_def update_tile_def World_init_def Tile_init_def Tile_update_def
      tile_full_def tile_bare_def)

end
